theory Spec2Isabelle
  imports Main "HOL-Library.Log_Nat"
begin

section \<open>Stream decoder (App.tsx, handleModelRun)\<close>

text \<open>
  A JavaScript string is modelled as a \<^typ>\<open>string\<close>, one \<^typ>\<open>char\<close> per code unit
  (code units below 0x100, which covers the record separator and the white space
  that \<^verbatim>\<open>String.prototype.trim\<close> removes in that range).  The text
  fragments are the strings that \<^verbatim>\<open>decoder.decode(value, {stream: true})\<close> returns
  for the successive reads; \<^verbatim>\<open>JSON.parse\<close> is a parameter that returns either the
  message of the \<^verbatim>\<open>SyntaxError\<close> it throws (\<open>Inl\<close>) or the parsed value (\<open>Inr\<close>).
\<close>

definition STREAM_CHUNK_DELIMITER :: char where
  "STREAM_CHUNK_DELIMITER = CHR 0x1E"

definition is_white_space :: "char \<Rightarrow> bool" where
  "is_white_space c \<longleftrightarrow>
     c \<in> set [CHR 0x09, CHR 0x0A, CHR 0x0B, CHR 0x0C, CHR 0x0D, CHR 0x20, CHR 0xA0]"

definition trim :: "string \<Rightarrow> string" where
  "trim s = rev (dropWhile is_white_space (rev (dropWhile is_white_space s)))"

text \<open>\<^verbatim>\<open>s.split(d)\<close> for a one-character separator: never empty, \<open>[[]]\<close> on the empty string.\<close>

fun split_str :: "char \<Rightarrow> string \<Rightarrow> string list" where
  "split_str d [] = [[]]"
| "split_str d (c # cs) =
     (if c = d then [] # split_str d cs
      else (case split_str d cs of
              [] \<Rightarrow> [[c]]
            | p # ps \<Rightarrow> (c # p) # ps))"

type_synonym 'r json_parse = "string \<Rightarrow> string + 'r"

text \<open>
  What a consumer observes of the async generator: the values yielded, in order, and
  then either normal completion (\<open>None\<close>) or the message of the error thrown to it.
\<close>

type_synonym 'r stream = "'r list \<times> string option"

text \<open>\<^verbatim>\<open>if (part.trim()) yield JSON.parse(part.trim())\<close>\<close>

definition yield_part :: "'r json_parse \<Rightarrow> string \<Rightarrow> 'r stream" where
  "yield_part parse part =
     (if trim part \<noteq> [] then
        (case parse (trim part) of
           Inl msg \<Rightarrow> ([], Some msg)
         | Inr r \<Rightarrow> ([r], None))
      else ([], None))"

text \<open>Sequencing of two pieces of generator code: a throw in the first skips the second.\<close>

definition then_stream :: "'r stream \<Rightarrow> 'r stream \<Rightarrow> 'r stream" where
  "then_stream a b =
     (case snd a of
        Some msg \<Rightarrow> a
      | None \<Rightarrow> (fst a @ fst b, snd b))"

text \<open>\<^verbatim>\<open>for (const part of parts) { ... }\<close>\<close>

fun yield_parts :: "'r json_parse \<Rightarrow> string list \<Rightarrow> 'r stream" where
  "yield_parts parse [] = ([], None)"
| "yield_parts parse (part # parts) =
     then_stream (yield_part parse part) (yield_parts parse parts)"

text \<open>
  The \<^verbatim>\<open>while (true)\<close> loop of the generator, over the fragments still to be read;
  the empty list is \<^verbatim>\<open>done\<close>.  \<^verbatim>\<open>parts.pop() || ""\<close> is the last part
  (\<open>split_str\<close> is never empty), and \<open>parts\<close> keeps the rest.
\<close>

fun read_loop :: "'r json_parse \<Rightarrow> string \<Rightarrow> string list \<Rightarrow> 'r stream" where
  "read_loop parse buffer [] = yield_part parse buffer"
| "read_loop parse buffer (v # rest) =
     (let buffer1 = buffer @ v;
          parts = split_str STREAM_CHUNK_DELIMITER buffer1;
          buffer2 = (if parts = [] then [] else last parts)
      in then_stream (yield_parts parse (butlast parts))
                     (read_loop parse buffer2 rest))"

text \<open>The generator that \<^verbatim>\<open>handleModelRun\<close> returns; every read succeeds until \<^verbatim>\<open>done\<close>.\<close>

definition handleModelRun_stream :: "'r json_parse \<Rightarrow> string list \<Rightarrow> 'r stream" where
  "handleModelRun_stream parse fragments = read_loop parse [] fragments"


section \<open>Chat transcript (GameScreen.tsx, handleSendMessageToModel)\<close>

datatype role = User | Assistant | Thinking

text \<open>
  Message ids are the template strings \<^verbatim>\<open>user-${Date.now()}\<close>,
  \<^verbatim>\<open>assistant-${Date.now()}\<close>, \<^verbatim>\<open>thinking-${Date.now()}\<close> and
  \<^verbatim>\<open>error-${Date.now()}\<close>: a prefix and the clock reading.  The id of an entry is
  \<open>None\<close> when it was built from \<^verbatim>\<open>thinkingMessageId!\<close> while that variable was
  \<^verbatim>\<open>null\<close>.
\<close>

datatype message_id = UserId nat | AssistantId nat | ThinkingId nat | ErrorId nat

record ChatMessage =
  msg_id :: "message_id option"
  role :: role
  content :: string
  isThinking :: "bool option"

text \<open>
  A value of the stream as the loop reads it: \<^verbatim>\<open>type\<close>, \<^verbatim>\<open>delta\<close> (a string when
  present) and \<^verbatim>\<open>error\<close> (a string, or the object \<^verbatim>\<open>{message: ...}\<close>).
  \<open>NonObject\<close> is any value for which \<^verbatim>\<open>typeof chunk === "object" && chunk !== null\<close>
  is false.
\<close>

datatype error_field = ErrorString string | ErrorObject string

record chunk =
  chunk_type :: "string option"
  delta :: "string option"
  chunk_error :: "error_field option"

datatype stream_item = Object chunk | NonObject

record api_message =
  api_role :: role
  api_content :: string

text \<open>
  \<^verbatim>\<open>setChatMessages\<close> does not change the transcript when it is called: it queues its
  argument, and React runs the queued updater functions, oldest first, when it next
  renders the component.  An updater is a closure: what it reads from the variables
  \<^verbatim>\<open>thinkingMessageId\<close> and \<^verbatim>\<open>currentAssistantMessage\<close>, both declared with
  \<^verbatim>\<open>let\<close> and assigned in the loop, and from the clock, it reads when it runs.  What it
  reads from a \<^verbatim>\<open>const\<close> of the loop body is fixed when it is queued and is kept in
  the constructor.  The updaters of the component, in the order of the source:
  \<^item> \<open>SetMessages\<close>: \<^verbatim>\<open>setChatMessages([])\<close> of the two effects;
  \<^item> \<open>AppendMessage\<close>: \<^verbatim>\<open>(prev) => [...prev, newUserMessage]\<close>;
  \<^item> \<open>AppendThinking\<close>: the append of the \<^verbatim>\<open>"thinking"\<close> branch, with
    \<^verbatim>\<open>id: thinkingMessageId!\<close>;
  \<^item> \<open>ExtendThinking\<close>: the map of the \<^verbatim>\<open>"thinking"\<close> branch;
  \<^item> \<open>SealThinking\<close>: the map that sets \<^verbatim>\<open>isThinking: false\<close> (three places);
  \<^item> \<open>PutAssistant\<close>: the second update of the \<^verbatim>\<open>"text"\<close> branch;
  \<^item> \<open>AppendError\<close>: the append of the \<^verbatim>\<open>"error"\<close> branch and of the
    \<^verbatim>\<open>catch\<close> block, with \<^verbatim>\<open>id: `error-${Date.now()}`\<close>.
\<close>

datatype update =
    SetMessages "ChatMessage list"
  | AppendMessage ChatMessage
  | AppendThinking string
  | ExtendThinking string
  | SealThinking
  | PutAssistant message_id
  | AppendError string

text \<open>
  A queued updater reads the variables of the call that queued it: \<open>Live\<close> while that
  call is running, so that it sees later assignments, \<open>Settled\<close> with their last values
  once the call has returned.
\<close>

datatype queued = Live update | Settled "message_id option" string update

text \<open>
  The state of the GameScreen component (\<open>chatMessages\<close> as of the last render, the
  queue, the selected model, the streaming flag) together with the local variables of
  the turn that is running.
\<close>

record GameScreen =
  chatMessages :: "ChatMessage list"
  pending :: "queued list"
  selectedModel :: string
  isModelStreaming :: bool
  currentAssistantMessage :: string
  thinkingMessageId :: "message_id option"

text \<open>
  One updater run on the transcript \<open>prev\<close>, at clock reading \<open>now\<close>, with
  \<open>tid\<close> and \<open>msg\<close> the values of \<^verbatim>\<open>thinkingMessageId\<close> and
  \<^verbatim>\<open>currentAssistantMessage\<close> at that moment.
\<close>

definition apply_update ::
    "nat \<Rightarrow> message_id option \<Rightarrow> string \<Rightarrow> update \<Rightarrow> ChatMessage list \<Rightarrow> ChatMessage list" where
  "apply_update now tid msg upd prev =
     (case upd of
        SetMessages ms \<Rightarrow> ms
      | AppendMessage m \<Rightarrow> prev @ [m]
      | AppendThinking thinkingContent \<Rightarrow>
          prev @ [\<lparr>msg_id = tid, role = Thinking,
                   content = thinkingContent, isThinking = Some True\<rparr>]
      | ExtendThinking thinkingContent \<Rightarrow>
          map (\<lambda>m. if msg_id m = tid
                   then m\<lparr>content := content m @ thinkingContent, isThinking := Some True\<rparr>
                   else m) prev
      | SealThinking \<Rightarrow>
          map (\<lambda>m. if msg_id m = tid then m\<lparr>isThinking := Some False\<rparr> else m) prev
      | PutAssistant assistantResponseId \<Rightarrow>
          if prev \<noteq> [] \<and> msg_id (last prev) = Some assistantResponseId
               \<and> role (last prev) = Assistant
          then map (\<lambda>m. if msg_id m = Some assistantResponseId
                        then m\<lparr>content := msg\<rparr> else m) prev
          else filter (\<lambda>m. msg_id m \<noteq> tid) prev @
                 [\<lparr>msg_id = Some assistantResponseId, role = Assistant,
                   content = msg, isThinking = None\<rparr>]
      | AppendError errorText \<Rightarrow>
          prev @ [\<lparr>msg_id = Some (ErrorId now), role = Assistant,
                   content = errorText, isThinking = None\<rparr>])"

definition run_queued ::
    "nat \<Rightarrow> message_id option \<Rightarrow> string \<Rightarrow> queued \<Rightarrow> ChatMessage list \<Rightarrow> ChatMessage list" where
  "run_queued now tid msg q prev =
     (case q of
        Live upd \<Rightarrow> apply_update now tid msg upd prev
      | Settled tid0 msg0 upd \<Rightarrow> apply_update now tid0 msg0 upd prev)"

text \<open>A render of the component at clock reading \<open>now\<close>: the queue is run and emptied.\<close>

definition render :: "nat \<Rightarrow> GameScreen \<Rightarrow> GameScreen" where
  "render now st =
     st\<lparr>chatMessages :=
          foldl (\<lambda>prev q. run_queued now (thinkingMessageId st) (currentAssistantMessage st) q prev)
            (chatMessages st) (pending st),
        pending := []\<rparr>"

definition setChatMessages :: "update \<Rightarrow> GameScreen \<Rightarrow> GameScreen" where
  "setChatMessages upd st = st\<lparr>pending := pending st @ [Live upd]\<rparr>"

text \<open>\<^verbatim>\<open>(typedChunk.delta || "") as string\<close>\<close>

definition delta_or_empty :: "chunk \<Rightarrow> string" where
  "delta_or_empty c = (case delta c of None \<Rightarrow> [] | Some d \<Rightarrow> d)"

text \<open>
  \<^verbatim>\<open>`${typedChunk.error || typedChunk.delta}`\<close>: an object is truthy and prints as
  \<^verbatim>\<open>[object Object]\<close>; a missing or empty \<^verbatim>\<open>error\<close> falls through to
  \<^verbatim>\<open>delta\<close>, and a missing \<^verbatim>\<open>delta\<close> prints as \<^verbatim>\<open>undefined\<close>.
\<close>

definition error_or_delta :: "chunk \<Rightarrow> string" where
  "error_or_delta c =
     (case chunk_error c of
        Some (ErrorObject m) \<Rightarrow> ''[object Object]''
      | Some (ErrorString e) \<Rightarrow>
          (if e \<noteq> [] then e
           else (case delta c of None \<Rightarrow> ''undefined'' | Some d \<Rightarrow> d))
      | None \<Rightarrow> (case delta c of None \<Rightarrow> ''undefined'' | Some d \<Rightarrow> d))"

text \<open>
  The \<^verbatim>\<open>"thinking"\<close> branch.  The id \<^verbatim>\<open>`thinking-${Date.now()}`\<close> is assigned to
  the variable when the record is processed, at clock reading \<open>now\<close>.
\<close>

definition on_thinking :: "nat \<Rightarrow> chunk \<Rightarrow> GameScreen \<Rightarrow> GameScreen" where
  "on_thinking now c st =
     (let thinkingContent = delta_or_empty c in
      case thinkingMessageId st of
        None \<Rightarrow>
          setChatMessages (AppendThinking thinkingContent)
            (st\<lparr>thinkingMessageId := Some (ThinkingId now)\<rparr>)
      | Some tid \<Rightarrow> setChatMessages (ExtendThinking thinkingContent) st)"

text \<open>
  The \<^verbatim>\<open>"text"\<close> branch: the seal is queued, then \<^verbatim>\<open>thinkingMessageId = null\<close>,
  then the second update is queued.
\<close>

definition on_text :: "message_id \<Rightarrow> chunk \<Rightarrow> GameScreen \<Rightarrow> GameScreen" where
  "on_text assistantResponseId c st =
     (let st1 = st\<lparr>currentAssistantMessage := currentAssistantMessage st @ delta_or_empty c\<rparr>;
          st2 = (if thinkingMessageId st1 \<noteq> None
                 then (setChatMessages SealThinking st1)\<lparr>thinkingMessageId := None\<rparr>
                 else st1)
      in setChatMessages (PutAssistant assistantResponseId) st2)"

text \<open>The \<^verbatim>\<open>"error"\<close> branch, up to its \<^verbatim>\<open>break\<close>.\<close>

definition on_error :: "chunk \<Rightarrow> GameScreen \<Rightarrow> GameScreen" where
  "on_error c st =
     (let st1 = setChatMessages (AppendError (''Error from AI: '' @ error_or_delta c)) st
      in if thinkingMessageId st1 \<noteq> None
         then (setChatMessages SealThinking st1)\<lparr>thinkingMessageId := None\<rparr>
         else st1)"

text \<open>
  One pass through the body of \<^verbatim>\<open>for await (const chunk of stream)\<close>, at clock reading
  \<open>now\<close>; the boolean says whether the body ended with \<^verbatim>\<open>break\<close>.
\<close>

definition process_chunk ::
    "message_id \<Rightarrow> nat \<Rightarrow> stream_item \<Rightarrow> GameScreen \<Rightarrow> GameScreen \<times> bool" where
  "process_chunk assistantResponseId now item st =
     (case item of
        NonObject \<Rightarrow> (st, False)
      | Object c \<Rightarrow>
          if chunk_type c = Some ''thinking'' then (on_thinking now c st, False)
          else if chunk_type c = Some ''text'' then (on_text assistantResponseId c st, False)
          else if chunk_type c = Some ''error'' then (on_error c st, True)
          else (st, False))"

text \<open>
  What happens while the loop runs: a value arrives from the stream and the loop body
  runs on it (\<open>Arrives\<close>, with the clock reading), or React renders the component
  while the loop waits for the next value (\<open>Renders\<close>, with the clock reading).
  Values that arrive in one task of the event loop have no render between them.
\<close>

datatype turn_event = Arrives nat stream_item | Renders nat

fun consume :: "message_id \<Rightarrow> turn_event list \<Rightarrow> GameScreen \<Rightarrow> GameScreen \<times> bool" where
  "consume assistantResponseId [] st = (st, False)"
| "consume assistantResponseId (Renders now # rest) st =
     consume assistantResponseId rest (render now st)"
| "consume assistantResponseId (Arrives now item # rest) st =
     (case process_chunk assistantResponseId now item st of
        (st1, True) \<Rightarrow> (st1, True)
      | (st1, False) \<Rightarrow> consume assistantResponseId rest st1)"

text \<open>
  The stream as the loop meets it: the events up to its end, and the message of the
  error it throws there, if any.
\<close>

type_synonym timed_stream = "turn_event list \<times> string option"

definition on_catch :: "string \<Rightarrow> GameScreen \<Rightarrow> GameScreen" where
  "on_catch msg st = setChatMessages (AppendError (''Chat Error: '' @ msg)) st"

text \<open>
  The \<^verbatim>\<open>finally\<close> block.  The call returns after it, so the updaters still queued
  keep the values the variables have now.
\<close>

definition settle :: "message_id option \<Rightarrow> string \<Rightarrow> queued \<Rightarrow> queued" where
  "settle tid msg q = (case q of Live upd \<Rightarrow> Settled tid msg upd | Settled t m upd \<Rightarrow> q)"

definition on_finally :: "GameScreen \<Rightarrow> GameScreen" where
  "on_finally st =
     (let st1 = st\<lparr>isModelStreaming := False\<rparr>;
          st2 = (if thinkingMessageId st1 \<noteq> None then setChatMessages SealThinking st1 else st1)
      in st2\<lparr>pending :=
               map (settle (thinkingMessageId st2) (currentAssistantMessage st2)) (pending st2)\<rparr>)"

text \<open>The \<^verbatim>\<open>try\<close> / \<^verbatim>\<open>catch\<close> / \<^verbatim>\<open>finally\<close> around the loop.\<close>

definition run_stream :: "message_id \<Rightarrow> timed_stream \<Rightarrow> GameScreen \<Rightarrow> GameScreen" where
  "run_stream assistantResponseId stream st =
     (case consume assistantResponseId (fst stream) st of
        (st1, True) \<Rightarrow> on_finally st1
      | (st1, False) \<Rightarrow>
          (case snd stream of
             None \<Rightarrow> on_finally st1
           | Some msg \<Rightarrow> on_finally (on_catch msg st1)))"

definition newUserMessage :: "nat \<Rightarrow> string \<Rightarrow> ChatMessage" where
  "newUserMessage now userInput =
     \<lparr>msg_id = Some (UserId now), role = User, content = userInput, isThinking = None\<rparr>"

definition messagesForApi :: "ChatMessage list \<Rightarrow> ChatMessage \<Rightarrow> api_message list" where
  "messagesForApi msgs new =
     map (\<lambda>m. \<lparr>api_role = role m, api_content = content m\<rparr>)
       (filter (\<lambda>msg. role msg = User \<or> role msg = Assistant) (msgs @ [new]))"

text \<open>
  The statements up to \<^verbatim>\<open>await onModelRun(...)\<close>, with the two variables of the new
  call.
\<close>

definition begin_turn :: "nat \<Rightarrow> string \<Rightarrow> GameScreen \<Rightarrow> GameScreen" where
  "begin_turn t_user userInput st =
     (setChatMessages (AppendMessage (newUserMessage t_user userInput)) st)
       \<lparr>isModelStreaming := True,
        currentAssistantMessage := [],
        thinkingMessageId := None\<rparr>"

text \<open>
  \<open>t_user\<close> and \<open>t_assistant\<close> are the two clock readings taken before the call;
  \<open>onModelRun\<close> answers the request with the stream.  \<open>chatMessages\<close> in the
  request is the transcript of the render that made the handler.
\<close>

definition handleSendMessageToModel ::
    "(string \<Rightarrow> api_message list \<Rightarrow> timed_stream) \<Rightarrow> nat \<Rightarrow> nat \<Rightarrow> string \<Rightarrow>
     GameScreen \<Rightarrow> GameScreen" where
  "handleSendMessageToModel onModelRun t_user t_assistant userInput st =
     (if trim userInput = [] then st
      else
        let request = messagesForApi (chatMessages st) (newUserMessage t_user userInput);
            stream = onModelRun (selectedModel st) request
        in run_stream (AssistantId t_assistant) stream (begin_turn t_user userInput st))"

text \<open>
  The records named in the properties of the assembler: a \<^verbatim>\<open>"thinking"\<close> and a
  \<^verbatim>\<open>"text"\<close> record with a fragment, the \<^verbatim>\<open>"error"\<close> record with the failure as
  its \<^verbatim>\<open>delta\<close> or as \<^verbatim>\<open>error: {message: ...}\<close>, and the legacy record that
  carries only a \<^verbatim>\<open>delta\<close>, with the type \<^verbatim>\<open>"delta"\<close> or with no type at all.
\<close>

definition thinking_record :: "string \<Rightarrow> stream_item" where
  "thinking_record d =
     Object \<lparr>chunk_type = Some ''thinking'', delta = Some d, chunk_error = None\<rparr>"

definition text_record :: "string \<Rightarrow> stream_item" where
  "text_record d = Object \<lparr>chunk_type = Some ''text'', delta = Some d, chunk_error = None\<rparr>"

definition error_delta_record :: "string \<Rightarrow> stream_item" where
  "error_delta_record d =
     Object \<lparr>chunk_type = Some ''error'', delta = Some d, chunk_error = None\<rparr>"

definition error_object_record :: "string \<Rightarrow> stream_item" where
  "error_object_record m =
     Object \<lparr>chunk_type = Some ''error'', delta = None, chunk_error = Some (ErrorObject m)\<rparr>"

definition delta_record :: "string \<Rightarrow> stream_item" where
  "delta_record d = Object \<lparr>chunk_type = Some ''delta'', delta = Some d, chunk_error = None\<rparr>"

definition untagged_record :: "string \<Rightarrow> stream_item" where
  "untagged_record d = Object \<lparr>chunk_type = None, delta = Some d, chunk_error = None\<rparr>"

text \<open>
  The request as the specification words it: the user and assistant entries of the
  transcript, in order, each reduced to role and content.
\<close>

fun spec_request_messages :: "ChatMessage list \<Rightarrow> api_message list" where
  "spec_request_messages [] = []"
| "spec_request_messages (m # ms) =
     (case role m of
        Thinking \<Rightarrow> spec_request_messages ms
      | _ \<Rightarrow> \<lparr>api_role = role m, api_content = content m\<rparr> # spec_request_messages ms)"

text \<open>
  The state in which the loop starts when the transcript held nothing before the
  message just sent: the message is queued and nothing else is.
\<close>

definition fresh_turn :: "nat \<Rightarrow> string \<Rightarrow> GameScreen \<Rightarrow> GameScreen" where
  "fresh_turn t_user userInput st =
     begin_turn t_user userInput (st\<lparr>chatMessages := [], pending := []\<rparr>)"

text \<open>A screen with no messages and no turn in progress, and a model that answers nothing.\<close>

definition empty_screen :: GameScreen where
  "empty_screen =
     \<lparr>chatMessages = [], pending = [], selectedModel = ''model'', isModelStreaming = False,
      currentAssistantMessage = [], thinkingMessageId = None\<rparr>"

definition silent_model :: "string \<Rightarrow> api_message list \<Rightarrow> timed_stream" where
  "silent_model model request = ([], None)"

section \<open>Chat input (ChatInputArea.tsx)\<close>

text \<open>
  The events by which the user can ask for a send: the Enter key in the text field
  (with the state of the shift key) and a click on the submit button.  With
  \<^verbatim>\<open>disabled={isSending}\<close> the text field takes no key event, and with
  \<^verbatim>\<open>disabled={isSending || !userInput.trim()}\<close> the button takes no click.
\<close>

datatype input_event = EnterKey bool | SubmitClick

text \<open>\<^verbatim>\<open>handleSend\<close>: the message handed to \<^verbatim>\<open>onSendMessage\<close>, if any.\<close>

definition handleSend :: "string \<Rightarrow> string option" where
  "handleSend userInput = (if trim userInput = [] then None else Some userInput)"

definition chat_input_event :: "bool \<Rightarrow> string \<Rightarrow> input_event \<Rightarrow> string option" where
  "chat_input_event isSending userInput ev =
     (case ev of
        EnterKey shiftKey \<Rightarrow>
          if isSending then None
          else if \<not> shiftKey \<and> \<not> isSending then handleSend userInput
          else None
      | SubmitClick \<Rightarrow>
          if isSending \<or> trim userInput = [] then None
          else handleSend userInput)"

text \<open>
  The chat surface over time: the GameScreen state together with \<open>in_flight\<close>, the
  number of \<^verbatim>\<open>onModelRun\<close> calls whose stream has not reached the
  \<^verbatim>\<open>finally\<close> block yet.  GameScreen passes \<^verbatim>\<open>isModelStreaming\<close> to the input
  area as \<^verbatim>\<open>isSending\<close>; the flag is set in the handler of the key or click event,
  and React renders it before the next event.  A send runs
  \<^verbatim>\<open>handleSendMessageToModel\<close> up to its \<^verbatim>\<open>await\<close>; a finish runs the rest of it;
  a reset is the effect that clears the chat when the question changes; a repaint is
  a render of the component.
\<close>

record chat_surface =
  screen :: GameScreen
  in_flight :: nat

definition chat_surface_init :: "string \<Rightarrow> chat_surface" where
  "chat_surface_init model =
     \<lparr>screen = \<lparr>chatMessages = [], pending = [], selectedModel = model,
                isModelStreaming = False,
                currentAssistantMessage = [], thinkingMessageId = None\<rparr>,
      in_flight = 0\<rparr>"

inductive chat_step :: "chat_surface \<Rightarrow> chat_surface \<Rightarrow> bool" where
  send:
    "chat_input_event (isModelStreaming (screen s)) userInput ev = Some msg \<Longrightarrow>
     trim msg \<noteq> [] \<Longrightarrow>
     chat_step s \<lparr>screen = begin_turn t_user msg (screen s), in_flight = Suc (in_flight s)\<rparr>"
| finish:
    "in_flight s = Suc n \<Longrightarrow>
     chat_step s \<lparr>screen = run_stream assistantResponseId stream (screen s), in_flight = n\<rparr>"
| reset:
    "chat_step s (s\<lparr>screen := setChatMessages (SetMessages []) (screen s)\<rparr>)"
| repaint:
    "chat_step s (s\<lparr>screen := render now (screen s)\<rparr>)"

inductive chat_reachable :: "string \<Rightarrow> chat_surface \<Rightarrow> bool" where
  init: "chat_reachable model (chat_surface_init model)"
| step: "chat_reachable model s \<Longrightarrow> chat_step s s' \<Longrightarrow> chat_reachable model s'"

section \<open>Numbers\<close>

text \<open>
  A JavaScript number is an IEEE 754 double: \<open>Finite q\<close> is the double whose value is
  the rational \<open>q\<close> (the two zeros are not told apart), and there are the two
  infinities and NaN.  A sum is the exact sum rounded to the nearest double, ties to
  the even significand: \<open>double_round\<close>, with 53 bits of significand, the smallest
  exponent \<open>- 1022\<close> and overflow from \<open>2 ^ 1024\<close>.
\<close>

datatype js_number = Finite rat | PosInfinity | NegInfinity | NaN

definition round_half_even :: "rat \<Rightarrow> int" where
  "round_half_even x =
     (let f = \<lfloor>x\<rfloor>; r = x - of_int f
      in if r < 1 / 2 then f
         else if 1 / 2 < r then f + 1
         else if even f then f else f + 1)"

text \<open>The \<open>e\<close> with \<open>2 powi e \<le> q < 2 powi (e + 1)\<close>, for \<open>q > 0\<close>.\<close>

definition floor_log2 :: "rat \<Rightarrow> int" where
  "floor_log2 q =
     (let (a, b) = quotient_of q; d = bitlen a - bitlen b
      in if 2 powi d \<le> q then d else d - 1)"

definition double_round :: "rat \<Rightarrow> js_number" where
  "double_round q =
     (if q = 0 then Finite 0
      else
        let quantum = 2 powi (max (floor_log2 \<bar>q\<bar>) (- 1022) - 52);
            m = of_int (round_half_even (\<bar>q\<bar> / quantum)) * quantum
        in if 2 powi 1024 \<le> m then (if 0 < q then PosInfinity else NegInfinity)
           else Finite (sgn q * m))"

text \<open>\<^verbatim>\<open>x + y\<close> and \<^verbatim>\<open>x > y\<close> on numbers.\<close>

fun number_add :: "js_number \<Rightarrow> js_number \<Rightarrow> js_number" where
  "number_add NaN y = NaN"
| "number_add x NaN = NaN"
| "number_add PosInfinity NegInfinity = NaN"
| "number_add NegInfinity PosInfinity = NaN"
| "number_add PosInfinity y = PosInfinity"
| "number_add NegInfinity y = NegInfinity"
| "number_add x PosInfinity = PosInfinity"
| "number_add x NegInfinity = NegInfinity"
| "number_add (Finite a) (Finite b) = double_round (a + b)"

fun number_greater :: "js_number \<Rightarrow> js_number \<Rightarrow> bool" where
  "number_greater NaN y = False"
| "number_greater x NaN = False"
| "number_greater PosInfinity PosInfinity = False"
| "number_greater PosInfinity y = True"
| "number_greater NegInfinity y = False"
| "number_greater (Finite a) PosInfinity = False"
| "number_greater (Finite a) NegInfinity = True"
| "number_greater (Finite a) (Finite b) = (b < a)"

section \<open>Session controller (App.tsx)\<close>

record User =
  user_id :: string
  name :: string
  current_stage :: js_number

record Question =
  question_id :: string
  prompt :: string

datatype GameView = Loading | Joining | Playing | Victory | ErrorView | AttemptingAutoJoin

record JoinResponse =
  join_user :: User
  join_question :: "Question option"

record AttemptResponse =
  correct :: bool
  victory :: bool
  question :: "Question option"
  message :: "string option"

record JoinRequest =
  request_name :: string
  start_new :: bool

definition MAX_STAGES :: js_number where
  "MAX_STAGES = Finite 3"

text \<open>
  The state of the App component, with the value stored in \<^verbatim>\<open>localStorage\<close> under
  \<^verbatim>\<open>LOCAL_STORAGE_USER_NAME_KEY\<close>.  The model list of \<^verbatim>\<open>ModelInfo\<close> is kept as
  the default model's name and the option names.
\<close>

record ModelInfo =
  default_model :: string
  options :: "string list"

record App =
  currentUser :: "User option"
  currentQuestion :: "Question option"
  models :: "ModelInfo option"
  currentView :: GameView
  isLoading :: bool
  isAttemptingAutoJoin :: bool
  error :: "string option"
  isJoinDialogOpen :: bool
  actionLoading :: bool
  snackbarOpen :: bool
  snackbarMessage :: string
  persistedUserName :: "string option"
  isNewGameMode :: bool
  localStorage :: "string option"

definition handleShowErrorSnackbar :: "string \<Rightarrow> App \<Rightarrow> App" where
  "handleShowErrorSnackbar msg s = s\<lparr>snackbarMessage := msg, snackbarOpen := True\<rparr>"

text \<open>
  \<^verbatim>\<open>options\<close> of \<^verbatim>\<open>handleJoinGame\<close>: only the truth of each field is read, so a
  missing field is \<open>False\<close>.
\<close>

record join_options =
  startNew :: bool
  isAutoAttempt :: bool

text \<open>
  \<open>fetch_join\<close> is the \<^verbatim>\<open>POST /join\<close> call with its decoding: \<open>Inl\<close> carries the
  message of the error thrown inside the \<^verbatim>\<open>try\<close> block, \<open>Inr\<close> the response.
\<close>

definition handleJoinGame ::
    "(JoinRequest \<Rightarrow> string + JoinResponse) \<Rightarrow> string \<Rightarrow> join_options \<Rightarrow> App \<Rightarrow> bool \<times> App" where
  "handleJoinGame fetch_join nm opts s =
     (if trim nm = [] then
        (False, if \<not> isAutoAttempt opts then s\<lparr>error := Some ''Please enter a name.''\<rparr> else s)
      else
        let s1 = (if \<not> isAutoAttempt opts then s\<lparr>actionLoading := True\<rparr> else s);
            s2 = s1\<lparr>error := None\<rparr>;
            startNewSession = (startNew opts \<or> isNewGameMode s);
            finally = (\<lambda>st. if \<not> isAutoAttempt opts then st\<lparr>actionLoading := False\<rparr> else st)
        in case fetch_join \<lparr>request_name = trim nm, start_new = startNewSession\<rparr> of
             Inr data \<Rightarrow>
               (True,
                finally
                  (s2\<lparr>currentUser := Some (join_user data),
                      currentQuestion := join_question data,
                      localStorage := Some (name (join_user data)),
                      persistedUserName := Some (name (join_user data)),
                      currentView :=
                        (if number_greater (current_stage (join_user data)) MAX_STAGES then Victory
                         else if join_question data \<noteq> None then Playing
                         else Victory),
                      isJoinDialogOpen := False,
                      isNewGameMode := False\<rparr>))
           | Inl errorMessage \<Rightarrow>
               (False,
                finally
                  (let s3 = s2\<lparr>error := Some errorMessage\<rparr>
                   in if isAutoAttempt opts
                      then s3\<lparr>localStorage := None, persistedUserName := None\<rparr>
                      else handleShowErrorSnackbar (''Failed to join: '' @ errorMessage) s3)))"

text \<open>
  \<open>fetch_models\<close> is the outcome of \<^verbatim>\<open>GET /models\<close> in the same way.  A saved name
  is used when it is truthy: present and not the empty string.
\<close>

definition initializeApp ::
    "(string + ModelInfo) \<Rightarrow> (JoinRequest \<Rightarrow> string + JoinResponse) \<Rightarrow> App \<Rightarrow> App" where
  "initializeApp fetch_models fetch_join s =
     (let s0 = s\<lparr>isLoading := True, isAttemptingAutoJoin := False, error := None,
                 currentUser := None, models := None, currentView := Loading\<rparr>;
          finally = (\<lambda>st. st\<lparr>isLoading := False, isAttemptingAutoJoin := False\<rparr>)
      in case fetch_models of
           Inl errorMessage \<Rightarrow>
             finally (handleShowErrorSnackbar (''App Error: '' @ errorMessage)
                        (s0\<lparr>error := Some errorMessage, currentView := ErrorView\<rparr>))
         | Inr modelsData \<Rightarrow>
             let s1 = s0\<lparr>models := Some modelsData\<rparr>
             in (case localStorage s1 of
                   None \<Rightarrow> finally (s1\<lparr>currentView := Joining, isJoinDialogOpen := True\<rparr>)
                 | Some savedName \<Rightarrow>
                     if savedName = [] then
                       finally (s1\<lparr>currentView := Joining, isJoinDialogOpen := True\<rparr>)
                     else
                       let s2 = s1\<lparr>persistedUserName := Some savedName,
                                   isAttemptingAutoJoin := True,
                                   currentView := AttemptingAutoJoin\<rparr>;
                           (autoJoinSuccess, s3) =
                             handleJoinGame fetch_join savedName
                               \<lparr>startNew = False, isAutoAttempt = True\<rparr> s2
                       in if \<not> autoJoinSuccess
                          then finally (s3\<lparr>currentView := Joining, isJoinDialogOpen := True\<rparr>)
                          else finally s3))"

text \<open>
  What \<^verbatim>\<open>renderInitialLoadOrError\<close> and the snackbar put on the screen: the alert
  with the error text, and the snackbar message while the snackbar is open.
\<close>

definition error_alert :: "App \<Rightarrow> string option" where
  "error_alert s =
     (if currentView s = AttemptingAutoJoin \<or> (isLoading s \<and> isAttemptingAutoJoin s) then None
      else if isLoading s \<and> currentView s = Loading then None
      else if currentView s = ErrorView \<and> error s \<noteq> None \<and> error s \<noteq> Some [] then error s
      else None)"

definition snackbar_shown :: "App \<Rightarrow> string option" where
  "snackbar_shown s = (if snackbarOpen s then Some (snackbarMessage s) else None)"

text \<open>
  \<open>fetch_attempt\<close> is the outcome of \<^verbatim>\<open>POST /attempt\<close>.  The result is what the
  promise settles to: \<open>Inl\<close> the message of the error it rejects with.
\<close>

definition handleSubmitAttempt ::
    "(string + AttemptResponse) \<Rightarrow> string \<Rightarrow> App \<Rightarrow> (string + AttemptResponse) \<times> App" where
  "handleSubmitAttempt fetch_attempt answer s =
     (if currentUser s = None \<or> currentQuestion s = None then
        (let errorMsg = ''User or question not available for submission.''
         in (Inl errorMsg,
             handleShowErrorSnackbar (''Error: '' @ errorMsg) (s\<lparr>error := Some errorMsg\<rparr>)))
      else
        let s1 = s\<lparr>actionLoading := True, error := None\<rparr>
        in case fetch_attempt of
             Inr data \<Rightarrow>
               (Inr data,
                (if correct data then
                   (let s2 = s1\<lparr>currentUser :=
                                  map_option (\<lambda>prevUser.
                                      prevUser\<lparr>current_stage :=
                                        number_add (current_stage prevUser) (Finite 1)\<rparr>)
                                    (currentUser s1)\<rparr>
                    in if victory data
                       then s2\<lparr>currentView := Victory, currentQuestion := None\<rparr>
                       else s2\<lparr>currentQuestion := question data, currentView := Playing\<rparr>)
                 else
                   (if question data \<noteq> None then s1\<lparr>currentQuestion := question data\<rparr> else s1))
                  \<lparr>actionLoading := False\<rparr>)
           | Inl errorMessage \<Rightarrow>
               (Inl errorMessage,
                (handleShowErrorSnackbar (''Error submitting answer: '' @ errorMessage)
                   (s1\<lparr>error := Some errorMessage\<rparr>))\<lparr>actionLoading := False\<rparr>))"

text \<open>
  \<^verbatim>\<open>handleModelRun\<close>.  \<open>fetch_model_run\<close> is the outcome of \<^verbatim>\<open>POST /model-run\<close> up
  to \<^verbatim>\<open>getReader()\<close>: \<open>Inl\<close> the message of the error thrown in the \<^verbatim>\<open>try\<close>
  block, \<open>Inr\<close> the text fragments that the reads of the body deliver before
  \<^verbatim>\<open>done\<close>.  The result is the sequence handed to the caller.
\<close>

definition error_stream :: "string \<Rightarrow> stream_item stream" where
  "error_stream msg =
     ([Object \<lparr>chunk_type = Some ''error'', delta = None,
               chunk_error = Some (ErrorObject msg)\<rparr>], None)"

definition handleModelRun ::
    "stream_item json_parse \<Rightarrow> (string + string list) \<Rightarrow> App \<Rightarrow> stream_item stream \<times> App" where
  "handleModelRun parse fetch_model_run s =
     (let s1 = s\<lparr>error := None\<rparr>
      in if currentUser s1 = None then
           (let msg = ''User not available for model run.''
            in (error_stream msg,
                handleShowErrorSnackbar (''Error: '' @ msg) (s1\<lparr>error := Some msg\<rparr>)))
         else
           (case fetch_model_run of
              Inr fragments \<Rightarrow> (handleModelRun_stream parse fragments, s1)
            | Inl errorMessage \<Rightarrow>
                (error_stream errorMessage,
                 handleShowErrorSnackbar (''AI Chat Error: '' @ errorMessage)
                   (s1\<lparr>error := Some errorMessage\<rparr>))))"

text \<open>A stand-in for \<^verbatim>\<open>JSON.parse\<close> on two inputs, used to run the decoder on examples.\<close>

definition parse_stub :: "stream_item json_parse" where
  "parse_stub s =
     (if s = ''{}'' then Inr (Object \<lparr>chunk_type = None, delta = None, chunk_error = None\<rparr>)
      else if s = ''7'' then Inr NonObject
      else Inl ''Unexpected token'')"

definition handlePlayAgain :: "App \<Rightarrow> App" where
  "handlePlayAgain s =
     s\<lparr>currentUser := None, currentQuestion := None, error := None,
       isNewGameMode := True, currentView := Joining, isJoinDialogOpen := True,
       localStorage := None\<rparr>"


text \<open>A session in play at a given whole-numbered stage, with puzzle \<open>q1\<close> held.\<close>

definition playing_state :: "int \<Rightarrow> App" where
  "playing_state stage =
     \<lparr>currentUser =
        Some \<lparr>user_id = ''u1'', name = ''Ada'', current_stage = Finite (of_int stage)\<rparr>,
      currentQuestion = Some \<lparr>question_id = ''q1'', prompt = ''p1''\<rparr>,
      models = Some \<lparr>default_model = ''m'', options = [''m'']\<rparr>,
      currentView = Playing, isLoading = False, isAttemptingAutoJoin = False,
      error = None, isJoinDialogOpen = False, actionLoading = False,
      snackbarOpen = False, snackbarMessage = [], persistedUserName = Some ''Ada'',
      isNewGameMode = False, localStorage = Some ''Ada''\<rparr>"

text \<open>
  The App state at start-up with the name \<open>Ada\<close> remembered, and a join call that
  always fails.
\<close>

definition returning_state :: App where
  "returning_state =
     \<lparr>currentUser = None, currentQuestion = None, models = None,
      currentView = Loading, isLoading = True, isAttemptingAutoJoin = False,
      error = None, isJoinDialogOpen = False, actionLoading = False,
      snackbarOpen = False, snackbarMessage = [], persistedUserName = None,
      isNewGameMode = False, localStorage = Some ''Ada''\<rparr>"

definition join_unavailable :: "JoinRequest \<Rightarrow> string + JoinResponse" where
  "join_unavailable request = Inl ''Failed to join. Please try again.''"

section \<open>The decoder depends only on the concatenated input\<close>

lemma split_str_nonempty: "split_str d s \<noteq> []"
  by (induction s) (auto split: list.splits)

lemma split_str_append:
  "split_str d (a @ b) = butlast (split_str d a) @ split_str d (last (split_str d a) @ b)"
  by (induction a) (auto split: list.splits simp: split_str_nonempty)

lemma split_str_no_delimiter: "d \<notin> set s \<Longrightarrow> split_str d s = [s]"
  by (induction s) auto

lemma last_split_str_no_delimiter: "d \<notin> set (last (split_str d s))"
  by (induction s) (auto split: list.splits simp: split_str_nonempty)

lemma then_stream_assoc: "then_stream (then_stream a b) c = then_stream a (then_stream b c)"
  by (cases a; cases b; cases c) (auto simp: then_stream_def split: option.splits)

lemma then_stream_empty [simp]: "then_stream a ([], None) = a" "then_stream ([], None) a = a"
  by (cases a; auto simp: then_stream_def split: option.splits)+

lemma yield_parts_append:
  "yield_parts parse (xs @ ys) = then_stream (yield_parts parse xs) (yield_parts parse ys)"
  by (induction xs) (simp_all add: then_stream_assoc)

lemma read_loop_concat:
  "STREAM_CHUNK_DELIMITER \<notin> set buffer \<Longrightarrow>
   read_loop parse buffer fragments =
     yield_parts parse (split_str STREAM_CHUNK_DELIMITER (buffer @ concat fragments))"
proof (induction fragments arbitrary: buffer)
  case Nil
  then show ?case
    by (simp add: split_str_no_delimiter)
next
  case (Cons v rest)
  let ?parts = "split_str STREAM_CHUNK_DELIMITER (buffer @ v)"
  have "split_str STREAM_CHUNK_DELIMITER ((buffer @ v) @ concat rest) =
          butlast ?parts @ split_str STREAM_CHUNK_DELIMITER (last ?parts @ concat rest)"
    by (rule split_str_append)
  then show ?case
    using Cons.IH [of "last ?parts"] last_split_str_no_delimiter [of STREAM_CHUNK_DELIMITER "buffer @ v"]
    by (simp add: Let_def split_str_nonempty yield_parts_append)
qed

lemma handleModelRun_stream_concat:
  "handleModelRun_stream parse fragments =
     yield_parts parse (split_str STREAM_CHUNK_DELIMITER (concat fragments))"
  using read_loop_concat [of "[]" parse fragments] by (simp add: handleModelRun_stream_def)

lemma yield_parts_all_ok:
  "map (\<lambda>s. parse (trim s)) (filter (\<lambda>s. trim s \<noteq> []) segs) = map Inr rs \<Longrightarrow>
   yield_parts parse segs = (rs, None)"
proof (induction segs arbitrary: rs)
  case Nil
  then show ?case by simp
next
  case (Cons s segs)
  show ?case
  proof (cases "trim s = []")
    case True
    with Cons show ?thesis by (simp add: yield_part_def)
  next
    case False
    with Cons.prems obtain r rs' where rs: "rs = r # rs'" and r: "parse (trim s) = Inr r"
      and rest: "map (\<lambda>s. parse (trim s)) (filter (\<lambda>s. trim s \<noteq> []) segs) = map Inr rs'"
      by (cases rs) auto
    from Cons.IH [OF rest] r False rs show ?thesis
      by (simp add: yield_part_def then_stream_def)
  qed
qed

lemma first_failing_segment:
  assumes "seg \<in> set segs" "trim seg \<noteq> []" "parse (trim seg) = Inl m"
  shows "\<exists>before bad after records msg.
           segs = before @ bad # after \<and> trim bad \<noteq> [] \<and> parse (trim bad) = Inl msg \<and>
           map (\<lambda>s. parse (trim s)) (filter (\<lambda>s. trim s \<noteq> []) before) = map Inr records"
  using assms
proof (induction segs)
  case Nil
  then show ?case by simp
next
  case (Cons s segs)
  show ?case
  proof (cases "trim s \<noteq> [] \<and> (\<exists>msg. parse (trim s) = Inl msg)")
    case True
    then obtain msg where "trim s \<noteq> []" "parse (trim s) = Inl msg" by blast
    then have "s # segs = [] @ s # segs \<and> trim s \<noteq> [] \<and> parse (trim s) = Inl msg \<and>
               map (\<lambda>s. parse (trim s)) (filter (\<lambda>s. trim s \<noteq> []) []) = map Inr []"
      by simp
    then show ?thesis by blast
  next
    case False
    with Cons.prems have "seg \<in> set segs" by auto
    from Cons.IH [OF this Cons.prems(2,3)]
    obtain before bad after records msg where
      segs: "segs = before @ bad # after" and bad: "trim bad \<noteq> []" "parse (trim bad) = Inl msg"
      and ok: "map (\<lambda>s. parse (trim s)) (filter (\<lambda>s. trim s \<noteq> []) before) = map Inr records"
      by blast
    show ?thesis
    proof (cases "trim s = []")
      case True
      with segs bad ok have "s # segs = (s # before) @ bad # after \<and> trim bad \<noteq> [] \<and>
          parse (trim bad) = Inl msg \<and>
          map (\<lambda>s. parse (trim s)) (filter (\<lambda>s. trim s \<noteq> []) (s # before)) = map Inr records"
        by simp
      then show ?thesis by blast
    next
      case nonblank: False
      with False obtain r where r: "parse (trim s) = Inr r"
        by (cases "parse (trim s)") auto
      with nonblank segs bad ok have "s # segs = (s # before) @ bad # after \<and> trim bad \<noteq> [] \<and>
          parse (trim bad) = Inl msg \<and>
          map (\<lambda>s. parse (trim s)) (filter (\<lambda>s. trim s \<noteq> []) (s # before)) = map Inr (r # records)"
        by simp
      then show ?thesis by blast
    qed
  qed
qed

lemma yield_parts_first_failure:
  assumes ok: "map (\<lambda>seg. parse (trim seg)) (filter (\<lambda>seg. trim seg \<noteq> []) before) = map Inr records"
    and nonblank: "trim bad \<noteq> []"
    and bad: "parse (trim bad) = Inl msg"
  shows "yield_parts parse (before @ bad # after) = (records, Some msg)"
proof -
  have "yield_parts parse (before @ bad # after) =
          then_stream (yield_parts parse before)
            (then_stream (yield_part parse bad) (yield_parts parse after))"
    by (simp add: yield_parts_append)
  also have "\<dots> = (records, Some msg)"
    using yield_parts_all_ok [OF ok] nonblank bad
    by (simp add: yield_part_def then_stream_def)
  finally show ?thesis .
qed

lemma handleModelRun_ok:
  "currentUser s = Some u \<Longrightarrow>
   fst (handleModelRun parse (Inr fragments) s) = handleModelRun_stream parse fragments"
  by (simp add: handleModelRun_def Let_def)

text \<open>
  Claim C1 (decoder framing and trailing flush).  Let a user be held and the call
  succeed, let the fragments concatenate to \<open>input\<close>, and let every segment of
  \<open>input\<close> between record separators that is not blank after trimming parse, the
  results being \<open>records\<close> in segment order.  Then the sequence returned yields
  exactly \<open>records\<close> and completes, whatever the partition into fragments; there are
  as many records as non-blank segments; a non-blank final segment with no separator
  after it is the last record; and a blank tail after the last separator adds no
  record.
\<close>

theorem decoder_framing:
  assumes user: "currentUser s = Some u"
    and cat: "concat fragments = input"
    and ok: "map (\<lambda>seg. parse (trim seg))
               (filter (\<lambda>seg. trim seg \<noteq> []) (split_str STREAM_CHUNK_DELIMITER input)) =
             map Inr records"
  shows "fst (handleModelRun parse (Inr fragments) s) = (records, None) \<and>
         length records =
           length (filter (\<lambda>seg. trim seg \<noteq> []) (split_str STREAM_CHUNK_DELIMITER input)) \<and>
         (trim (last (split_str STREAM_CHUNK_DELIMITER input)) \<noteq> [] \<longrightarrow>
            records \<noteq> [] \<and>
            parse (trim (last (split_str STREAM_CHUNK_DELIMITER input))) = Inr (last records)) \<and>
         (trim (last (split_str STREAM_CHUNK_DELIMITER input)) = [] \<longrightarrow>
            length records =
              length (filter (\<lambda>seg. trim seg \<noteq> [])
                        (butlast (split_str STREAM_CHUNK_DELIMITER input))))"
proof -
  let ?segs = "split_str STREAM_CHUNK_DELIMITER input"
  let ?keep = "\<lambda>seg. trim seg \<noteq> []"
  have segs: "?segs = butlast ?segs @ [last ?segs]"
    by (simp add: split_str_nonempty)
  have run: "fst (handleModelRun parse (Inr fragments) s) = (records, None)"
    using yield_parts_all_ok [OF ok] cat
    by (simp add: handleModelRun_ok [OF user] handleModelRun_stream_concat)
  have len: "length records = length (filter ?keep ?segs)"
    using arg_cong [OF ok, of length] by simp
  have tail_kept: "records \<noteq> [] \<and> parse (trim (last ?segs)) = Inr (last records)"
    if "trim (last ?segs) \<noteq> []"
  proof -
    have "filter ?keep ?segs = filter ?keep (butlast ?segs) @ [last ?segs]"
      using that by (subst segs) simp
    with ok have eq: "map (\<lambda>seg. parse (trim seg)) (filter ?keep (butlast ?segs)) @
                   [parse (trim (last ?segs))] = map Inr records"
      by simp
    then have ne: "records \<noteq> []" by auto
    from eq have "last (map (\<lambda>seg. parse (trim seg)) (filter ?keep (butlast ?segs)) @
                   [parse (trim (last ?segs))]) = last (map Inr records)"
      by simp
    with ne show ?thesis by (simp add: last_map)
  qed
  have tail_blank: "length records = length (filter ?keep (butlast ?segs))"
    if "trim (last ?segs) = []"
  proof -
    have "filter ?keep ?segs = filter ?keep (butlast ?segs)"
      using that by (subst segs) simp
    with len show ?thesis by simp
  qed
  from run len tail_kept tail_blank show ?thesis by blast
qed

theorem decoder_framing_witness:
  "currentUser (playing_state 1) \<noteq> None \<and>
   fst (handleModelRun parse_stub
     (Inr [''{'', ''}'' @ [STREAM_CHUNK_DELIMITER] @ '' 7'',
           '' '' @ [STREAM_CHUNK_DELIMITER] @ '' ''])
     (playing_state 1))
   = ([Object \<lparr>chunk_type = None, delta = None, chunk_error = None\<rparr>, NonObject], None)"
  using decoder_framing [of "playing_state 1"
      "\<lparr>user_id = ''u1'', name = ''Ada'', current_stage = Finite 1\<rparr>"
      "[''{'', ''}'' @ [STREAM_CHUNK_DELIMITER] @ '' 7'', '' '' @ [STREAM_CHUNK_DELIMITER] @ '' '']"
      "''{}'' @ [STREAM_CHUNK_DELIMITER] @ '' 7 '' @ [STREAM_CHUNK_DELIMITER] @ '' ''"
      parse_stub "[Object \<lparr>chunk_type = None, delta = None, chunk_error = None\<rparr>, NonObject]"]
  by (simp add: STREAM_CHUNK_DELIMITER_def trim_def is_white_space_def parse_stub_def
      playing_state_def)

text \<open>
  Claim C7 (malformed JSON is fatal).  Let a user be held and the call succeed.  If
  some segment of the concatenated input is not blank after trimming and fails to
  parse, then the segments split as \<open>before\<close>, \<open>bad\<close>, \<open>after\<close>, where \<open>bad\<close> is
  such a segment and the non-blank segments of \<open>before\<close> parse to \<open>records\<close>; the
  sequence yields \<open>records\<close> and then throws the error of \<open>bad\<close> to its consumer.
  The bad segment is not skipped and nothing of \<open>after\<close> is yielded.
\<close>

theorem decoder_malformed_fatal:
  assumes user: "currentUser s = Some u"
    and cat: "concat fragments = input"
    and seg: "seg \<in> set (split_str STREAM_CHUNK_DELIMITER input)"
    and nonblank: "trim seg \<noteq> []"
    and fails: "parse (trim seg) = Inl m"
  shows "\<exists>before bad after records msg.
           split_str STREAM_CHUNK_DELIMITER input = before @ bad # after \<and>
           trim bad \<noteq> [] \<and> parse (trim bad) = Inl msg \<and>
           map (\<lambda>seg. parse (trim seg)) (filter (\<lambda>seg. trim seg \<noteq> []) before) = map Inr records \<and>
           fst (handleModelRun parse (Inr fragments) s) = (records, Some msg)"
proof -
  from first_failing_segment [of seg "split_str STREAM_CHUNK_DELIMITER input" parse m] seg nonblank fails
  obtain before bad after records msg where
    segs: "split_str STREAM_CHUNK_DELIMITER input = before @ bad # after"
    and bad: "trim bad \<noteq> []" "parse (trim bad) = Inl msg"
    and ok: "map (\<lambda>seg. parse (trim seg)) (filter (\<lambda>seg. trim seg \<noteq> []) before) = map Inr records"
    by blast
  have "fst (handleModelRun parse (Inr fragments) s) = (records, Some msg)"
    using yield_parts_first_failure [OF ok bad, of after] cat segs
    by (simp add: handleModelRun_ok [OF user] handleModelRun_stream_concat)
  with segs bad ok show ?thesis by blast
qed

theorem decoder_malformed_fatal_witness:
  "currentUser (playing_state 1) \<noteq> None \<and>
   ''{'' \<in> set (split_str STREAM_CHUNK_DELIMITER
              (''{}'' @ [STREAM_CHUNK_DELIMITER] @ ''{'' @ [STREAM_CHUNK_DELIMITER] @ ''7'')) \<and>
   parse_stub (trim ''{'') = Inl ''Unexpected token'' \<and>
   (\<exists>records msg.
      fst (handleModelRun parse_stub
        (Inr [''{}'' @ [STREAM_CHUNK_DELIMITER] @ ''{'', [STREAM_CHUNK_DELIMITER] @ ''7''])
        (playing_state 1)) = (records, Some msg))"
  using decoder_malformed_fatal [of "playing_state 1"
      "\<lparr>user_id = ''u1'', name = ''Ada'', current_stage = Finite 1\<rparr>"
      "[''{}'' @ [STREAM_CHUNK_DELIMITER] @ ''{'', [STREAM_CHUNK_DELIMITER] @ ''7'']"
      "''{}'' @ [STREAM_CHUNK_DELIMITER] @ ''{'' @ [STREAM_CHUNK_DELIMITER] @ ''7''"
      "''{''" parse_stub "''Unexpected token''"]
  by (simp add: STREAM_CHUNK_DELIMITER_def trim_def is_white_space_def parse_stub_def
      playing_state_def) blast

text \<open>The same run, evaluated.\<close>

lemma decoder_malformed_example:
  "fst (handleModelRun parse_stub
        (Inr [''{}'' @ [STREAM_CHUNK_DELIMITER] @ ''{'', [STREAM_CHUNK_DELIMITER] @ ''7''])
        (playing_state 1))
   = ([Object \<lparr>chunk_type = None, delta = None, chunk_error = None\<rparr>], Some ''Unexpected token'')"
  by (simp add: handleModelRun_def handleModelRun_stream_def Let_def yield_part_def then_stream_def
  STREAM_CHUNK_DELIMITER_def trim_def is_white_space_def parse_stub_def
      playing_state_def)


section \<open>The transcript assembler\<close>

lemmas assembler_defs =
  run_stream_def process_chunk_def on_thinking_def on_text_def on_error_def on_finally_def
  on_catch_def begin_turn_def fresh_turn_def newUserMessage_def setChatMessages_def settle_def
  render_def run_queued_def apply_update_def delta_or_empty_def error_or_delta_def

lemmas record_defs =
  thinking_record_def text_record_def error_delta_record_def error_object_record_def
  delta_record_def untagged_record_def

text \<open>
  Claim C2 (assembler coalescing): what the code does on the records thinking "a",
  thinking "b", text "X", text "Y", from a transcript that holds only the user entry
  just sent.  The claim asks for: user entry, thinking entry "ab" sealed, assistant
  entry "XY".  When React renders before each record, the thinking entry "ab" is never
  sealed (\<open>isThinking = Some True\<close>): the seal runs after
  \<^verbatim>\<open>thinkingMessageId = null\<close> and compares ids with \<^verbatim>\<open>null\<close>.  When the four
  records arrive with no render between them, the thinking entry is built with the id
  \<^verbatim>\<open>null\<close> and the filter of the first text update removes it: the transcript is
  user entry, assistant entry "XY".
\<close>

theorem assembler_coalescing_schedules:
  "chatMessages (render r4 (run_stream (AssistantId ta)
        ([Renders r0, Arrives t1 (thinking_record ''a''),
          Renders r1, Arrives t2 (thinking_record ''b''),
          Renders r2, Arrives t3 (text_record ''X''),
          Renders r3, Arrives t4 (text_record ''Y'')], None)
        (fresh_turn tu userInput st)))
     = [newUserMessage tu userInput,
        \<lparr>msg_id = Some (ThinkingId t1), role = Thinking, content = ''ab'',
         isThinking = Some True\<rparr>,
        \<lparr>msg_id = Some (AssistantId ta), role = Assistant, content = ''XY'',
         isThinking = None\<rparr>] \<and>
   chatMessages (render r4 (run_stream (AssistantId ta)
        ([Arrives t1 (thinking_record ''a''), Arrives t2 (thinking_record ''b''),
          Arrives t3 (text_record ''X''), Arrives t4 (text_record ''Y'')], None)
        (fresh_turn tu userInput st)))
     = [newUserMessage tu userInput,
        \<lparr>msg_id = Some (AssistantId ta), role = Assistant, content = ''XY'',
         isThinking = None\<rparr>]"
proof -
  have each: "chatMessages (render r4 (run_stream (AssistantId ta)
        ([Renders r0, Arrives t1 (thinking_record ''a''),
          Renders r1, Arrives t2 (thinking_record ''b''),
          Renders r2, Arrives t3 (text_record ''X''),
          Renders r3, Arrives t4 (text_record ''Y'')], None)
        (fresh_turn tu userInput st)))
     = [newUserMessage tu userInput,
        \<lparr>msg_id = Some (ThinkingId t1), role = Thinking, content = ''ab'',
         isThinking = Some True\<rparr>,
        \<lparr>msg_id = Some (AssistantId ta), role = Assistant, content = ''XY'',
         isThinking = None\<rparr>]"
    by (simp add: assembler_defs record_defs Let_def)
  have batch: "chatMessages (render r4 (run_stream (AssistantId ta)
        ([Arrives t1 (thinking_record ''a''), Arrives t2 (thinking_record ''b''),
          Arrives t3 (text_record ''X''), Arrives t4 (text_record ''Y'')], None)
        (fresh_turn tu userInput st)))
     = [newUserMessage tu userInput,
        \<lparr>msg_id = Some (AssistantId ta), role = Assistant, content = ''XY'',
         isThinking = None\<rparr>]"
    by (simp add: assembler_defs record_defs Let_def)
  from each batch show ?thesis by (simp only: simp_thms)
qed


lemma error_or_delta_type [simp]:
  "error_or_delta (e\<lparr>chunk_type := t\<rparr>) = error_or_delta e"
  by (simp add: error_or_delta_def split: option.splits error_field.splits)

text \<open>
  Claim C6 (assembler error truncation): what the code does on thinking "a" followed
  by an error record, from a transcript that holds only the user entry just sent.  The
  claim asks for: user entry, thinking entry "a" sealed, an assistant entry that tells
  the failure, and nothing processed after the error record.  When React renders
  between the two records, the thinking entry is never sealed, for the same reason as
  in C2; and for the record \<^verbatim>\<open>{type: "error", error: {message: "boom"}}\<close> the
  assistant entry reads \<^verbatim>\<open>Error from AI: [object Object]\<close>.  With no render between
  the two records the thinking entry is sealed, with the id \<^verbatim>\<open>null\<close>.  In each case
  the loop ends at the error record: what follows it in the stream is not read.
\<close>

theorem assembler_error_schedules:
  "chatMessages (render r2 (run_stream (AssistantId ta)
        ([Renders r0, Arrives t1 (thinking_record ''a''),
          Renders r1, Arrives t2 (error_delta_record ''boom'')] @ rest, thrown)
        (fresh_turn tu userInput st)))
     = [newUserMessage tu userInput,
        \<lparr>msg_id = Some (ThinkingId t1), role = Thinking, content = ''a'',
         isThinking = Some True\<rparr>,
        \<lparr>msg_id = Some (ErrorId r2), role = Assistant,
         content = ''Error from AI: boom'', isThinking = None\<rparr>] \<and>
   chatMessages (render r2 (run_stream (AssistantId ta)
        ([Renders r0, Arrives t1 (thinking_record ''a''),
          Renders r1, Arrives t2 (error_object_record ''boom'')] @ rest, thrown)
        (fresh_turn tu userInput st)))
     = [newUserMessage tu userInput,
        \<lparr>msg_id = Some (ThinkingId t1), role = Thinking, content = ''a'',
         isThinking = Some True\<rparr>,
        \<lparr>msg_id = Some (ErrorId r2), role = Assistant,
         content = ''Error from AI: [object Object]'', isThinking = None\<rparr>] \<and>
   chatMessages (render r2 (run_stream (AssistantId ta)
        ([Arrives t1 (thinking_record ''a''),
          Arrives t2 (error_delta_record ''boom'')] @ rest, thrown)
        (fresh_turn tu userInput st)))
     = [newUserMessage tu userInput,
        \<lparr>msg_id = None, role = Thinking, content = ''a'', isThinking = Some False\<rparr>,
        \<lparr>msg_id = Some (ErrorId r2), role = Assistant,
         content = ''Error from AI: boom'', isThinking = None\<rparr>] \<and>
   consume (AssistantId ta) (Arrives t2 (Object (e\<lparr>chunk_type := Some ''error''\<rparr>)) # rest) st
     = (on_error e st, True)"
proof -
  have a: "chatMessages (render r2 (run_stream (AssistantId ta)
        ([Renders r0, Arrives t1 (thinking_record ''a''),
          Renders r1, Arrives t2 (error_delta_record ''boom'')] @ rest, thrown)
        (fresh_turn tu userInput st)))
     = [newUserMessage tu userInput,
        \<lparr>msg_id = Some (ThinkingId t1), role = Thinking, content = ''a'',
         isThinking = Some True\<rparr>,
        \<lparr>msg_id = Some (ErrorId r2), role = Assistant,
         content = ''Error from AI: boom'', isThinking = None\<rparr>]"
    by (simp add: assembler_defs record_defs Let_def)
  have b: "chatMessages (render r2 (run_stream (AssistantId ta)
        ([Renders r0, Arrives t1 (thinking_record ''a''),
          Renders r1, Arrives t2 (error_object_record ''boom'')] @ rest, thrown)
        (fresh_turn tu userInput st)))
     = [newUserMessage tu userInput,
        \<lparr>msg_id = Some (ThinkingId t1), role = Thinking, content = ''a'',
         isThinking = Some True\<rparr>,
        \<lparr>msg_id = Some (ErrorId r2), role = Assistant,
         content = ''Error from AI: [object Object]'', isThinking = None\<rparr>]"
    by (simp add: assembler_defs record_defs Let_def)
  have c: "chatMessages (render r2 (run_stream (AssistantId ta)
        ([Arrives t1 (thinking_record ''a''),
          Arrives t2 (error_delta_record ''boom'')] @ rest, thrown)
        (fresh_turn tu userInput st)))
     = [newUserMessage tu userInput,
        \<lparr>msg_id = None, role = Thinking, content = ''a'', isThinking = Some False\<rparr>,
        \<lparr>msg_id = Some (ErrorId r2), role = Assistant,
         content = ''Error from AI: boom'', isThinking = None\<rparr>]"
    by (simp add: assembler_defs record_defs Let_def)
  have d: "consume (AssistantId ta)
        (Arrives t2 (Object (e\<lparr>chunk_type := Some ''error''\<rparr>)) # rest) st
     = (on_error e st, True)"
    by (simp add: process_chunk_def on_error_def Let_def)
  from a b c d show ?thesis by (simp only: simp_thms)
qed

text \<open>
  The records that \<^verbatim>\<open>handleModelRun\<close> makes itself when the call fails carry their
  message in such an object.
\<close>

lemma error_stream_entry:
  "error_stream msg = ([Object c], None) \<Longrightarrow> error_or_delta c = ''[object Object]''"
  by (auto simp: error_stream_def error_or_delta_def)

text \<open>
  Claim C5 (legacy delta record), as stated, fails: after the user message "hi", the
  record with type \<^verbatim>\<open>"delta"\<close> and delta "X" leaves the transcript as it was, while
  the \<^verbatim>\<open>"text"\<close> record with the same delta appends the assistant entry "X".
\<close>

theorem legacy_delta_counterexample:
  "chatMessages (render 3 (run_stream (AssistantId 1) ([Renders 1, Arrives 2 (delta_record ''X'')], None)
       (begin_turn 0 ''hi'' empty_screen)))
     = [\<lparr>msg_id = Some (UserId 0), role = User, content = ''hi'', isThinking = None\<rparr>] \<and>
   chatMessages (render 3 (run_stream (AssistantId 1) ([Renders 1, Arrives 2 (text_record ''X'')], None)
       (begin_turn 0 ''hi'' empty_screen)))
     = [\<lparr>msg_id = Some (UserId 0), role = User, content = ''hi'', isThinking = None\<rparr>,
        \<lparr>msg_id = Some (AssistantId 1), role = Assistant, content = ''X'', isThinking = None\<rparr>] \<and>
   run_stream (AssistantId 1) ([Renders 1, Arrives 2 (delta_record ''X'')], None)
       (begin_turn 0 ''hi'' empty_screen)
     \<noteq> run_stream (AssistantId 1) ([Renders 1, Arrives 2 (text_record ''X'')], None)
       (begin_turn 0 ''hi'' empty_screen)"
  by (simp add: assembler_defs record_defs empty_screen_def Let_def)

text \<open>
  Claim C5, amended.  A record that carries only a \<^verbatim>\<open>delta\<close>, with the type
  \<^verbatim>\<open>"delta"\<close> or with no type, is skipped by the loop: the state is unchanged (no
  update is queued, no variable assigned) and the loop goes on with the next record.
\<close>

theorem legacy_delta_skipped:
  "process_chunk assistantResponseId now (delta_record d) st = (st, False) \<and>
   process_chunk assistantResponseId now (untagged_record d) st = (st, False) \<and>
   consume assistantResponseId (Arrives now (delta_record d) # rest) st
     = consume assistantResponseId rest st \<and>
   consume assistantResponseId (Arrives now (untagged_record d) # rest) st
     = consume assistantResponseId rest st"
  by (simp add: process_chunk_def record_defs)

lemma messagesForApi_spec:
  "map (\<lambda>m. \<lparr>api_role = role m, api_content = content m\<rparr>)
       (filter (\<lambda>msg. role msg = User \<or> role msg = Assistant) msgs)
   = spec_request_messages msgs"
  by (induction msgs) (auto split: role.splits)

lemma spec_request_messages_append:
  "spec_request_messages (xs @ ys) = spec_request_messages xs @ spec_request_messages ys"
  by (induction xs) (auto split: role.splits)

lemma spec_request_messages_roles:
  "r \<in> set (spec_request_messages msgs) \<Longrightarrow> api_role r \<noteq> Thinking"
  by (induction msgs) (auto split: role.splits)

text \<open>
  Claim C10 (request messages).  For a non-blank input, the stream consumed is the one
  \<^verbatim>\<open>onModelRun\<close> returns for the selected model and the user and assistant entries
  of the transcript followed by the message just sent, in transcript order, as role and
  content; the request ends with the message just sent, and no entry of it has the
  role thinking.
\<close>

theorem request_messages:
  assumes "trim userInput \<noteq> []"
  shows "handleSendMessageToModel onModelRun tu ta userInput st =
           run_stream (AssistantId ta)
             (onModelRun (selectedModel st)
                (spec_request_messages (chatMessages st @ [newUserMessage tu userInput])))
             (begin_turn tu userInput st) \<and>
         messagesForApi (chatMessages st) (newUserMessage tu userInput) =
           spec_request_messages (chatMessages st) @
             [\<lparr>api_role = User, api_content = userInput\<rparr>] \<and>
         (\<forall>r \<in> set (messagesForApi (chatMessages st) (newUserMessage tu userInput)).
            api_role r \<noteq> Thinking)"
proof -
  have req: "messagesForApi (chatMessages st) (newUserMessage tu userInput) =
               spec_request_messages (chatMessages st @ [newUserMessage tu userInput])"
    unfolding messagesForApi_def by (rule messagesForApi_spec)
  have run: "handleSendMessageToModel onModelRun tu ta userInput st =
           run_stream (AssistantId ta)
             (onModelRun (selectedModel st)
                (spec_request_messages (chatMessages st @ [newUserMessage tu userInput])))
             (begin_turn tu userInput st)"
    using assms by (simp add: handleSendMessageToModel_def Let_def req)
  have last: "spec_request_messages (chatMessages st @ [newUserMessage tu userInput]) =
           spec_request_messages (chatMessages st) @
             [\<lparr>api_role = User, api_content = userInput\<rparr>]"
    by (simp add: spec_request_messages_append newUserMessage_def)
  have roles: "\<forall>r \<in> set (messagesForApi (chatMessages st) (newUserMessage tu userInput)).
            api_role r \<noteq> Thinking"
    unfolding req by (blast dest: spec_request_messages_roles)
  from run req last roles show ?thesis by simp
qed

theorem request_messages_witness:
  "trim ''hi'' \<noteq> [] \<and>
   messagesForApi
     [\<lparr>msg_id = Some (UserId 1), role = User, content = ''q'', isThinking = None\<rparr>,
      \<lparr>msg_id = Some (ThinkingId 2), role = Thinking, content = ''hm'',
       isThinking = Some False\<rparr>,
      \<lparr>msg_id = Some (AssistantId 1), role = Assistant, content = ''a'', isThinking = None\<rparr>]
     (newUserMessage 3 ''hi'')
   = [\<lparr>api_role = User, api_content = ''q''\<rparr>,
      \<lparr>api_role = Assistant, api_content = ''a''\<rparr>,
      \<lparr>api_role = User, api_content = ''hi''\<rparr>]"
  using request_messages [of "''hi''" silent_model 3 3
      "empty_screen\<lparr>chatMessages :=
         [\<lparr>msg_id = Some (UserId 1), role = User, content = ''q'', isThinking = None\<rparr>,
          \<lparr>msg_id = Some (ThinkingId 2), role = Thinking, content = ''hm'',
           isThinking = Some False\<rparr>,
          \<lparr>msg_id = Some (AssistantId 1), role = Assistant, content = ''a'',
           isThinking = None\<rparr>]\<rparr>"]
  by (simp add: trim_def is_white_space_def)

section \<open>One chat turn at a time\<close>

lemma on_finally_not_streaming [simp]: "isModelStreaming (on_finally st) = False"
  by (simp add: on_finally_def setChatMessages_def Let_def)

lemma run_stream_not_streaming [simp]:
  "isModelStreaming (run_stream assistantResponseId stream st) = False"
  by (simp add: run_stream_def split: prod.splits bool.splits option.splits)

lemma begin_turn_streaming [simp]: "isModelStreaming (begin_turn t userInput st) = True"
  by (simp add: begin_turn_def)

lemma setChatMessages_streaming [simp]:
  "isModelStreaming (setChatMessages upd st) = isModelStreaming st"
  by (simp add: setChatMessages_def)

lemma render_streaming [simp]: "isModelStreaming (render now st) = isModelStreaming st"
  by (simp add: render_def)

lemma chat_input_event_sending [simp]: "chat_input_event True userInput ev = None"
  by (simp add: chat_input_event_def split: input_event.splits)

lemma chat_reachable_invariant:
  "chat_reachable model s \<Longrightarrow>
   in_flight s = (if isModelStreaming (screen s) then 1 else 0)"
proof (induction rule: chat_reachable.induct)
  case (init model)
  show ?case by (simp add: chat_surface_init_def)
next
  case (step model s s')
  from step.hyps(2) show ?case
  proof (cases rule: chat_step.cases)
    case (send userInput ev msg t_user)
    then have "\<not> isModelStreaming (screen s)"
      by (cases "isModelStreaming (screen s)") simp_all
    with send step.IH show ?thesis by simp
  next
    case (finish n assistantResponseId stream)
    with step.IH show ?thesis by (simp split: if_splits)
  next
    case reset
    with step.IH show ?thesis by simp
  next
    case (repaint now)
    with step.IH show ?thesis by simp
  qed
qed

text \<open>
  Claim C9 (one turn at a time).  In every state the chat surface can reach, at most
  one \<^verbatim>\<open>onModelRun\<close> call is outstanding; and while the streaming flag is set, no
  event of the input area hands a message to the send handler (the text field and the
  submit button are disabled and the key handler tests the flag), so no step raises the
  number of outstanding calls.
\<close>

theorem single_outstanding_turn:
  assumes "chat_reachable model s"
  shows "in_flight s \<le> 1 \<and>
         (isModelStreaming (screen s) \<longrightarrow>
            chat_input_event (isModelStreaming (screen s)) userInput ev = None \<and>
            (\<forall>s'. chat_step s s' \<longrightarrow> in_flight s' \<le> in_flight s))"
proof -
  have inv: "in_flight s = (if isModelStreaming (screen s) then 1 else 0)"
    using assms by (rule chat_reachable_invariant)
  have no_new: "in_flight s' \<le> in_flight s" if "isModelStreaming (screen s)" "chat_step s s'" for s'
    using that(2)
  proof (cases rule: chat_step.cases)
    case (send userInput ev msg t_user)
    with that(1) show ?thesis by simp
  next
    case (finish n assistantResponseId stream)
    then show ?thesis by simp
  next
    case reset
    then show ?thesis by simp
  next
    case (repaint now)
    then show ?thesis by simp
  qed
  from inv no_new show ?thesis by (auto split: if_splits)
qed

lemma chat_reachable_after_send:
  "chat_reachable ''model''
     \<lparr>screen = begin_turn 0 ''hi'' (screen (chat_surface_init ''model'')), in_flight = Suc 0\<rparr>"
proof -
  have ev: "chat_input_event (isModelStreaming (screen (chat_surface_init ''model''))) ''hi''
              (EnterKey False) = Some ''hi''"
    by (simp add: chat_surface_init_def chat_input_event_def handleSend_def trim_def
        is_white_space_def)
  have ne: "trim ''hi'' \<noteq> []"
    by (simp add: trim_def is_white_space_def)
  have "chat_step (chat_surface_init ''model'')
          \<lparr>screen = begin_turn 0 ''hi'' (screen (chat_surface_init ''model'')),
           in_flight = Suc (in_flight (chat_surface_init ''model''))\<rparr>"
    using ev ne by (rule chat_step.send)
  then have "chat_step (chat_surface_init ''model'')
          \<lparr>screen = begin_turn 0 ''hi'' (screen (chat_surface_init ''model'')), in_flight = Suc 0\<rparr>"
    by (simp add: chat_surface_init_def)
  with chat_reachable.init show ?thesis by (rule chat_reachable.step)
qed

theorem single_outstanding_turn_witness:
  "chat_reachable ''model''
     \<lparr>screen = begin_turn 0 ''hi'' (screen (chat_surface_init ''model'')), in_flight = Suc 0\<rparr> \<and>
   isModelStreaming (begin_turn 0 ''hi'' (screen (chat_surface_init ''model''))) \<and>
   chat_input_event True ''again'' SubmitClick = None"
  using single_outstanding_turn [OF chat_reachable_after_send, of "''again''" SubmitClick]
    chat_reachable_after_send
  by simp



section \<open>Whole numbers below \<open>2 ^ 53\<close> are added exactly\<close>

lemma round_half_even_int [simp]: "round_half_even (of_int j) = j"
  by (simp add: round_half_even_def)

lemma bitlen_one: "bitlen 1 = 1"
  by (simp add: bitlen_alt_def)

lemma floor_log2_int:
  assumes "0 < k"
  shows "floor_log2 (of_int k) = bitlen k - 1"
proof -
  have "2 ^ nat (bitlen k - 1) \<le> k"
    using bitlen_bounds [OF assms] by simp
  then have "(of_int (2 ^ nat (bitlen k - 1)) :: rat) \<le> of_int k"
    by (simp only: of_int_le_iff)
  moreover have "0 \<le> bitlen k - 1"
    using assms bitlen_eq_zero_iff [of k] bitlen_nonneg [of k] by linarith
  ultimately have "(2::rat) powi (bitlen k - 1) \<le> of_int k"
    by (simp add: power_int_def)
  then show ?thesis
    by (simp add: floor_log2_def quotient_of_int bitlen_one)
qed

lemma double_round_pos_int:
  assumes pos: "0 < k" and le: "k \<le> 2 ^ 53"
  shows "double_round (of_int k) = Finite (of_int k)"
proof -
  let ?p = "bitlen k - 53"
  have e0: "1 \<le> bitlen k"
    using pos bitlen_eq_zero_iff [of k] bitlen_nonneg [of k] by linarith
  have lo: "2 ^ nat (bitlen k - 1) \<le> k"
    using bitlen_bounds [OF pos] by simp
  have e53: "bitlen k \<le> 54"
  proof (rule ccontr)
    assume "\<not> bitlen k \<le> 54"
    then have "54 \<le> nat (bitlen k - 1)" by simp
    then have "(2::int) ^ 54 \<le> 2 ^ nat (bitlen k - 1)"
      by (intro power_increasing) simp_all
    with lo le show False by simp
  qed
  have scaled: "\<exists>j. (of_int k :: rat) / 2 powi ?p = of_int j"
  proof (cases "bitlen k \<le> 53")
    case True
    then have "?p = - int (nat (53 - bitlen k))" by simp
    then have "(2::rat) powi ?p = inverse (2 ^ nat (53 - bitlen k))"
      by (simp only: power_int_minus power_int_of_nat)
    then have "(of_int k :: rat) / 2 powi ?p = of_int (k * 2 ^ nat (53 - bitlen k))"
      by (simp add: field_simps)
    then show ?thesis by blast
  next
    case False
    with e53 have e: "bitlen k = 54" by simp
    with lo le have k: "k = 2 ^ 53" by simp
    have "(of_int k :: rat) / 2 powi ?p = of_int (2 ^ 52)"
      unfolding e unfolding k by simp
    then show ?thesis by blast
  qed
  then obtain j where j: "(of_int k :: rat) / 2 powi ?p = of_int j" ..
  have q: "(2::rat) powi ?p \<noteq> 0" by simp
  from j have unscale: "of_int j * 2 powi ?p = (of_int k :: rat)"
    using q by (simp add: field_simps)
  have small: "\<not> (2::rat) powi 1024 \<le> of_int k"
  proof -
    have "k < 2 ^ 1024" using le by (rule order_le_less_trans) simp
    then have "(of_int k :: rat) < of_int (2 ^ 1024)" by (simp only: of_int_less_iff)
    then show ?thesis by simp
  qed
  have fl: "floor_log2 \<bar>of_int k\<bar> = bitlen k - 1"
    using pos floor_log2_int [OF pos] by simp
  have quantum: "max (bitlen k - 1) (- 1022) - 52 = ?p"
    using e0 by simp
  have ne: "(of_int k :: rat) \<noteq> 0" "\<bar>of_int k :: rat\<bar> = of_int k" "(0::rat) < of_int k"
    "sgn (of_int k :: rat) = 1"
    using pos by simp_all
  show ?thesis
    unfolding double_round_def Let_def fl quantum
    unfolding ne j round_half_even_int unscale
    using small ne(1) by simp
qed

lemma double_round_int:
  assumes "\<bar>m\<bar> \<le> 2 ^ 53"
  shows "double_round (of_int m) = Finite (of_int m)"
proof (cases "m = 0")
  case True
  then show ?thesis by (simp add: double_round_def)
next
  case False
  then have pos: "0 < \<bar>m\<bar>" by simp
  have abs: "\<bar>of_int m :: rat\<bar> = of_int \<bar>m\<bar>" by simp
  have *: "double_round (of_int \<bar>m\<bar>) = Finite (of_int \<bar>m\<bar>)"
    using pos assms by (rule double_round_pos_int)
  show ?thesis
  proof (cases "0 < m")
    case True
    with * show ?thesis by simp
  next
    case neg: False
    with False have m: "m < 0" by simp
    let ?k = "\<bar>m\<bar>"
    from * pos have "\<not> (2::rat) powi 1024 \<le>
        of_int (round_half_even (of_int ?k / 2 powi (max (floor_log2 (of_int ?k)) (- 1022) - 52))) *
          2 powi (max (floor_log2 (of_int ?k)) (- 1022) - 52)"
      and "of_int (round_half_even (of_int ?k / 2 powi (max (floor_log2 (of_int ?k)) (- 1022) - 52))) *
          2 powi (max (floor_log2 (of_int ?k)) (- 1022) - 52) = (of_int ?k :: rat)"
      by (auto simp: double_round_def Let_def split: if_splits)
    then show ?thesis
      using m False
      by (simp add: double_round_def Let_def abs del: of_int_abs)
  qed
qed

lemma double_round_succ:
  "\<bar>n\<bar> < 2 ^ 53 \<Longrightarrow> double_round (of_int n + 1) = Finite (of_int n + 1)"
  using double_round_int [of "n + 1"] by simp

lemma number_add_one:
  "\<bar>n\<bar> < 2 ^ 53 \<Longrightarrow>
   number_add (Finite (of_int n)) (Finite 1) = Finite (of_int (n + 1))"
  by (simp add: double_round_succ)

text \<open>
  Beyond that the sum is rounded: \<open>2 ^ 53 + 1\<close> is \<open>2 ^ 53\<close> again, and a stage with
  a fraction keeps it.
\<close>

lemma number_add_one_rounded:
  "number_add (Finite (2 ^ 53)) (Finite 1) = Finite (2 ^ 53)"
  "number_add (Finite (5 / 2)) (Finite 1) = Finite (7 / 2)"
  by code_simp+

section \<open>Attempts\<close>

text \<open>
  Claim C3 (stage progression).  With a user and a puzzle held, for every attempt
  response: if it is correct and not a victory, the held puzzle becomes the returned
  question, the view is Playing, and the stage, when it is a whole number of magnitude
  below \<open>2 ^ 53\<close>, goes up by exactly one; if it is not correct, the user (and so the
  stage) and the view are unchanged, and the held puzzle is replaced only when the
  response carries a question.
\<close>

theorem stage_progression:
  assumes user: "currentUser s = Some u"
    and puzzle: "currentQuestion s = Some q"
    and run: "handleSubmitAttempt (Inr data) answer s = (result, s')"
  shows "result = Inr data \<and>
         (correct data \<and> \<not> victory data \<longrightarrow>
            (\<forall>n. current_stage u = Finite (of_int n) \<and> \<bar>n\<bar> < 2 ^ 53 \<longrightarrow>
               currentUser s' = Some (u\<lparr>current_stage := Finite (of_int (n + 1))\<rparr>)) \<and>
            currentQuestion s' = question data \<and>
            currentView s' = Playing) \<and>
         (\<not> correct data \<longrightarrow>
            currentUser s' = Some u \<and>
            currentView s' = currentView s \<and>
            currentQuestion s' =
              (case question data of None \<Rightarrow> Some q | Some q' \<Rightarrow> Some q'))"
  using assms
  by (auto simp: handleSubmitAttempt_def Let_def double_round_succ split: option.splits)

theorem stage_progression_witness:
  "currentUser (playing_state 1)
     = Some \<lparr>user_id = ''u1'', name = ''Ada'', current_stage = Finite 1\<rparr> \<and>
   currentQuestion (playing_state 1) = Some \<lparr>question_id = ''q1'', prompt = ''p1''\<rparr> \<and>
   \<bar>1 :: int\<bar> < 2 ^ 53 \<and>
   currentUser (snd (handleSubmitAttempt
       (Inr \<lparr>correct = True, victory = False,
             question = Some \<lparr>question_id = ''q2'', prompt = ''p2''\<rparr>, message = None\<rparr>)
       ''42'' (playing_state 1)))
     = Some \<lparr>user_id = ''u1'', name = ''Ada'', current_stage = Finite 2\<rparr> \<and>
   currentQuestion (snd (handleSubmitAttempt
       (Inr \<lparr>correct = True, victory = False,
             question = Some \<lparr>question_id = ''q2'', prompt = ''p2''\<rparr>, message = None\<rparr>)
       ''42'' (playing_state 1)))
     = Some \<lparr>question_id = ''q2'', prompt = ''p2''\<rparr>"
proof -
  let ?data = "\<lparr>correct = True, victory = False,
             question = Some \<lparr>question_id = ''q2'', prompt = ''p2''\<rparr>, message = None\<rparr>"
  let ?u = "\<lparr>user_id = ''u1'', name = ''Ada'', current_stage = Finite 1\<rparr>"
  let ?q = "\<lparr>question_id = ''q1'', prompt = ''p1''\<rparr>"
  let ?run = "handleSubmitAttempt (Inr ?data) ''42'' (playing_state 1)"
  have user: "currentUser (playing_state 1) = Some ?u"
    and puzzle: "currentQuestion (playing_state 1) = Some ?q"
    by (simp_all add: playing_state_def)
  have run: "?run = (fst ?run, snd ?run)" by simp
  from stage_progression [OF user puzzle run]
  have stages: "\<forall>n. current_stage ?u = Finite (of_int n) \<and> \<bar>n\<bar> < 2 ^ 53 \<longrightarrow>
               currentUser (snd ?run) = Some (?u\<lparr>current_stage := Finite (of_int (n + 1))\<rparr>)"
    and next_puzzle: "currentQuestion (snd ?run) = question ?data"
    by simp_all
  from stages have "current_stage ?u = Finite (of_int 1) \<and> \<bar>1 :: int\<bar> < 2 ^ 53 \<longrightarrow>
               currentUser (snd ?run) = Some (?u\<lparr>current_stage := Finite (of_int (1 + 1))\<rparr>)"
    by (rule spec)
  then have "currentUser (snd ?run)
     = Some \<lparr>user_id = ''u1'', name = ''Ada'', current_stage = Finite 2\<rparr>"
    by simp
  with user puzzle next_puzzle show ?thesis by simp
qed

text \<open>
  Claim C4 (victory transition), as stated, fails in its last part: at stage 1 a
  response with \<open>correct\<close> and \<open>victory\<close> clears the puzzle and moves to Victory, but
  the held stage becomes 2, which does not exceed \<open>MAX_STAGES\<close>.
\<close>

theorem victory_stage_counterexample:
  "currentQuestion (snd (handleSubmitAttempt
       (Inr \<lparr>correct = True, victory = True, question = None, message = None\<rparr>)
       ''42'' (playing_state 1))) = None \<and>
   currentView (snd (handleSubmitAttempt
       (Inr \<lparr>correct = True, victory = True, question = None, message = None\<rparr>)
       ''42'' (playing_state 1))) = Victory \<and>
   map_option current_stage (currentUser (snd (handleSubmitAttempt
       (Inr \<lparr>correct = True, victory = True, question = None, message = None\<rparr>)
       ''42'' (playing_state 1)))) = Some (Finite 2) \<and>
   \<not> number_greater (Finite 2) MAX_STAGES"
  using number_add_one [of 1]
  by (simp add: handleSubmitAttempt_def playing_state_def MAX_STAGES_def Let_def)

text \<open>
  Claim C4, amended.  With a user and a puzzle held, for every response with
  \<open>correct\<close> and \<open>victory\<close> and every prior stage, the held puzzle becomes null and
  the view becomes Victory; when the prior stage is a whole number of magnitude below
  \<open>2 ^ 53\<close>, the held stage goes up by exactly one, and the resulting stage exceeds
  \<open>MAX_STAGES\<close> exactly when the prior stage was at least \<open>MAX_STAGES\<close>.
\<close>

theorem victory_transition:
  assumes user: "currentUser s = Some u"
    and puzzle: "currentQuestion s = Some q"
    and won: "correct data" "victory data"
    and run: "handleSubmitAttempt (Inr data) answer s = (result, s')"
  shows "currentQuestion s' = None \<and>
         currentView s' = Victory \<and>
         (\<forall>n. current_stage u = Finite (of_int n) \<and> \<bar>n\<bar> < 2 ^ 53 \<longrightarrow>
            currentUser s' = Some (u\<lparr>current_stage := Finite (of_int (n + 1))\<rparr>) \<and>
            (number_greater (Finite (of_int (n + 1))) MAX_STAGES \<longleftrightarrow>
               \<not> number_greater MAX_STAGES (Finite (of_int n))))"
  using assms
  by (auto simp: handleSubmitAttempt_def Let_def double_round_succ MAX_STAGES_def
      split: option.splits)

theorem victory_transition_witness:
  "currentUser (playing_state 3)
     = Some \<lparr>user_id = ''u1'', name = ''Ada'', current_stage = Finite 3\<rparr> \<and>
   \<bar>3 :: int\<bar> < 2 ^ 53 \<and>
   currentQuestion (snd (handleSubmitAttempt
       (Inr \<lparr>correct = True, victory = True, question = None, message = None\<rparr>)
       ''42'' (playing_state 3))) = None \<and>
   currentView (snd (handleSubmitAttempt
       (Inr \<lparr>correct = True, victory = True, question = None, message = None\<rparr>)
       ''42'' (playing_state 3))) = Victory \<and>
   currentUser (snd (handleSubmitAttempt
       (Inr \<lparr>correct = True, victory = True, question = None, message = None\<rparr>)
       ''42'' (playing_state 3)))
     = Some \<lparr>user_id = ''u1'', name = ''Ada'', current_stage = Finite 4\<rparr> \<and>
   number_greater (Finite 4) MAX_STAGES"
proof -
  let ?data = "\<lparr>correct = True, victory = True, question = None, message = None\<rparr>"
  let ?u = "\<lparr>user_id = ''u1'', name = ''Ada'', current_stage = Finite 3\<rparr>"
  let ?q = "\<lparr>question_id = ''q1'', prompt = ''p1''\<rparr>"
  let ?run = "handleSubmitAttempt (Inr ?data) ''42'' (playing_state 3)"
  have user: "currentUser (playing_state 3) = Some ?u"
    and puzzle: "currentQuestion (playing_state 3) = Some ?q"
    by (simp_all add: playing_state_def)
  have won: "correct ?data" "victory ?data" by simp_all
  have run: "?run = (fst ?run, snd ?run)" by simp
  from victory_transition [OF user puzzle won run]
  have cleared: "currentQuestion (snd ?run) = None" "currentView (snd ?run) = Victory"
    and stages: "\<forall>n. current_stage ?u = Finite (of_int n) \<and> \<bar>n\<bar> < 2 ^ 53 \<longrightarrow>
            currentUser (snd ?run) = Some (?u\<lparr>current_stage := Finite (of_int (n + 1))\<rparr>) \<and>
            (number_greater (Finite (of_int (n + 1))) MAX_STAGES \<longleftrightarrow>
               \<not> number_greater MAX_STAGES (Finite (of_int n)))"
    by simp_all
  from stages have "current_stage ?u = Finite (of_int 3) \<and> \<bar>3 :: int\<bar> < 2 ^ 53 \<longrightarrow>
            currentUser (snd ?run) = Some (?u\<lparr>current_stage := Finite (of_int (3 + 1))\<rparr>) \<and>
            (number_greater (Finite (of_int (3 + 1))) MAX_STAGES \<longleftrightarrow>
               \<not> number_greater MAX_STAGES (Finite (of_int 3)))"
    by (rule spec)
  then have "currentUser (snd ?run)
       = Some \<lparr>user_id = ''u1'', name = ''Ada'', current_stage = Finite 4\<rparr> \<and>
     number_greater (Finite 4) MAX_STAGES"
    by (simp add: MAX_STAGES_def)
  with user cleared show ?thesis by simp
qed

section \<open>Initialization and automatic rejoin\<close>

text \<open>
  Claim C8 (auto-rejoin fallback).  Let the model list load, let a name be remembered
  for which the join call is issued (it is not blank), and let that call fail.  Then
  after initialization the remembered name is gone from storage, the view is Joining
  with the join dialog open, the snackbar is as it was (neither opened nor given a
  message), and the error alert is not rendered.
\<close>

theorem auto_rejoin_fallback:
  assumes models_ok: "fetch_models = Inr modelsData"
    and saved: "localStorage s = Some savedName"
    and nonblank: "trim savedName \<noteq> []"
    and failed: "fetch_join \<lparr>request_name = trim savedName, start_new = isNewGameMode s\<rparr>
                   = Inl errorMessage"
  shows "localStorage (initializeApp fetch_models fetch_join s) = None \<and>
         persistedUserName (initializeApp fetch_models fetch_join s) = None \<and>
         currentView (initializeApp fetch_models fetch_join s) = Joining \<and>
         isJoinDialogOpen (initializeApp fetch_models fetch_join s) \<and>
         snackbarOpen (initializeApp fetch_models fetch_join s) = snackbarOpen s \<and>
         snackbarMessage (initializeApp fetch_models fetch_join s) = snackbarMessage s \<and>
         snackbar_shown (initializeApp fetch_models fetch_join s) = snackbar_shown s \<and>
         error_alert (initializeApp fetch_models fetch_join s) = None"
proof -
  from nonblank have ne: "savedName \<noteq> []"
    by (auto simp: trim_def)
  show ?thesis
    using models_ok saved nonblank failed ne
    by (simp add: initializeApp_def handleJoinGame_def Let_def snackbar_shown_def error_alert_def)
qed

theorem auto_rejoin_fallback_witness:
  "localStorage returning_state = Some ''Ada'' \<and> trim ''Ada'' \<noteq> [] \<and>
   localStorage (initializeApp (Inr \<lparr>default_model = ''m'', options = [''m'']\<rparr>)
                   join_unavailable returning_state) = None \<and>
   currentView (initializeApp (Inr \<lparr>default_model = ''m'', options = [''m'']\<rparr>)
                   join_unavailable returning_state) = Joining \<and>
   isJoinDialogOpen (initializeApp (Inr \<lparr>default_model = ''m'', options = [''m'']\<rparr>)
                   join_unavailable returning_state) \<and>
   snackbar_shown (initializeApp (Inr \<lparr>default_model = ''m'', options = [''m'']\<rparr>)
                   join_unavailable returning_state) = None"
  using auto_rejoin_fallback [of "Inr \<lparr>default_model = ''m'', options = [''m'']\<rparr>"
      "\<lparr>default_model = ''m'', options = [''m'']\<rparr>" returning_state "''Ada''"
      join_unavailable "''Failed to join. Please try again.''"]
  by (simp add: returning_state_def join_unavailable_def trim_def is_white_space_def
      snackbar_shown_def)

text \<open>
  Two remarks on the same path.  A remembered name that is blank makes
  \<^verbatim>\<open>handleJoinGame\<close> return before any call: nothing is removed from storage.  And
  when the call fails, the message is kept in the \<^verbatim>\<open>error\<close> state, which the Joining
  view does not render.
\<close>

lemma auto_rejoin_blank_name:
  "localStorage (initializeApp (Inr modelsData) fetch_join (s\<lparr>localStorage := Some '' ''\<rparr>))
     = Some '' ''"
  by (simp add: initializeApp_def handleJoinGame_def Let_def trim_def is_white_space_def)

lemma auto_rejoin_error_state:
  assumes "fetch_models = Inr modelsData" "localStorage s = Some savedName" "trim savedName \<noteq> []"
   "fetch_join \<lparr>request_name = trim savedName, start_new = isNewGameMode s\<rparr>
                   = Inl errorMessage"
  shows "error (initializeApp fetch_models fetch_join s) = Some errorMessage"
proof -
  from assms(3) have ne: "savedName \<noteq> []"
    by (auto simp: trim_def)
  show ?thesis
    using assms ne
    by (simp add: initializeApp_def handleJoinGame_def Let_def snackbar_shown_def error_alert_def)
qed



end
